theory Spec2Isabelle
  imports Main "HOL-Library.Word"
begin

section \<open>The null sink node of src/null/null-sink.c\<close>

text \<open>
  The node is a C structure \<open>struct null_state\<close> (src/null/null.h) and a table of
  functions over it (src/null/null-sink.c). Each function becomes a HOL function that
  takes the node (\<open>None\<close> for a NULL \<open>object\<close> pointer) and returns the C return
  value together with the node afterwards. Unsigned C integers are words of their width;
  \<open>int\<close> return values are integers. Calls into the logging interface have no effect on
  the node and are left out.
\<close>

subsection \<open>Constants\<close>

text \<open>Error numbers of \<open>errno.h\<close> (Linux values).\<close>

definition ENOENT :: int where "ENOENT = 2"
definition EIO :: int where "EIO = 5"
definition EINVAL :: int where "EINVAL = 22"
definition ENOTSUP :: int where "ENOTSUP = 95"

text \<open>
  Identifiers declared by the SPA headers that the source includes (spa/node/io.h,
  spa/node/command.h, spa/node/node.h, spa/param/param.h, spa/param/format.h,
  spa/utils/defs.h), with the
  values those headers give them.
\<close>

definition SPA_STATUS_OK :: int where "SPA_STATUS_OK = 0"
definition SPA_ID_INVALID :: "32 word" where "SPA_ID_INVALID = 0xffffffff"

definition SPA_IO_Buffers :: "32 word" where "SPA_IO_Buffers = 1"
definition SPA_IO_RateMatch :: "32 word" where "SPA_IO_RateMatch = 8"

definition SPA_NODE_COMMAND_Suspend :: "32 word" where "SPA_NODE_COMMAND_Suspend = 0"
definition SPA_NODE_COMMAND_Pause :: "32 word" where "SPA_NODE_COMMAND_Pause = 1"
definition SPA_NODE_COMMAND_Start :: "32 word" where "SPA_NODE_COMMAND_Start = 2"

definition SPA_PARAM_Format :: "32 word" where "SPA_PARAM_Format = 4"

definition SPA_MEDIA_TYPE_audio :: "32 word" where "SPA_MEDIA_TYPE_audio = 1"
definition SPA_MEDIA_SUBTYPE_raw :: "32 word" where "SPA_MEDIA_SUBTYPE_raw = 1"

definition SPA_RESULT_TYPE_NODE_PARAMS :: "32 word" where "SPA_RESULT_TYPE_NODE_PARAMS = 2"

text \<open>\<open>#define MAX_BUFFERS 16\<close> of null.h.\<close>

definition MAX_BUFFERS :: "32 word" where "MAX_BUFFERS = 16"

subsection \<open>Data\<close>

text \<open>
  \<open>enum spa_audio_format\<close>: the sample encodings. No function of the source inspects
  the encoding, so only the encodings named below are listed; \<open>SPA_AUDIO_FORMAT_UNKNOWN\<close>
  is the value 0 of a zeroed structure.
\<close>

datatype spa_audio_format =
    SPA_AUDIO_FORMAT_UNKNOWN
  | SPA_AUDIO_FORMAT_U8
  | SPA_AUDIO_FORMAT_S16
  | SPA_AUDIO_FORMAT_S24
  | SPA_AUDIO_FORMAT_S32
  | SPA_AUDIO_FORMAT_F32
  | SPA_AUDIO_FORMAT_F64
  | SPA_AUDIO_FORMAT_F32P

text \<open>\<open>struct spa_audio_info_raw\<close> and \<open>struct spa_audio_info\<close> (its \<open>info.raw\<close> member).\<close>

record spa_audio_info_raw =
  format :: spa_audio_format
  flags :: "32 word"
  rate :: "32 word"
  channels :: "32 word"
  position :: "32 word list"

record spa_audio_info =
  media_type :: "32 word"
  media_subtype :: "32 word"
  info_raw :: spa_audio_info_raw

text \<open>The value \<open>spa_zero\<close> and \<open>= { 0 }\<close> leave in a \<open>struct spa_audio_info\<close>.\<close>

definition zero_audio_info :: spa_audio_info where
  "zero_audio_info =
     \<lparr>media_type = 0, media_subtype = 0,
      info_raw = \<lparr>format = SPA_AUDIO_FORMAT_UNKNOWN, flags = 0, rate = 0, channels = 0,
                  position = replicate 64 0\<rparr>\<rparr>"

text \<open>
  Buffers as \<open>impl_node_process\<close> reads them: \<open>buf->datas[0].chunk->size\<close>. A pointer
  that may be NULL is an \<open>option\<close>; the array \<open>datas\<close> is a list.
\<close>

record spa_chunk =
  chunk_offset :: "32 word"
  chunk_size :: "32 word"

record spa_data =
  chunk :: "spa_chunk option"

record spa_buffer =
  datas :: "spa_data list"

text \<open>
  The buffer-queue area \<open>struct spa_io_buffers\<close> as the source uses it: a status, the
  current buffer identifier, and the array \<open>buffers\<close> of buffer pointers.
\<close>

record spa_io_buffers =
  status :: "32 word"
  buffer_id :: "32 word"
  buffers :: "spa_buffer option list"

text \<open>
  The areas are memory of the host graph: the node holds addresses, and the areas live in a
  store from addresses to areas.
\<close>

type_synonym addr = nat
type_synonym io_memory = "addr \<rightharpoonup> spa_io_buffers"

text \<open>
  \<open>struct null_state\<close>, the fields that the functions below read or write. (The embedded
  interface, the support interfaces and the static info blocks are written once by
  \<open>null_state_init\<close> and never read by these functions.)
\<close>

record null_state =
  have_format :: bool
  current_format :: spa_audio_info
  io :: "addr option"
  rate_match :: "addr option"
  frame_count :: "64 word"
  buffer_count :: "64 word"
  started :: bool

text \<open>
  A field of a local structure holds an indeterminate value until a statement writes it.
\<close>

datatype 'a c_field = Indeterminate | Written 'a

text \<open>
  The pod \<open>spa_format_audio_raw_build\<close> makes, identified with what it is built from:
  the object id and the raw audio info.
\<close>

type_synonym format_pod = "32 word \<times> spa_audio_info_raw"

definition spa_format_audio_raw_build :: "32 word \<Rightarrow> spa_audio_info_raw \<Rightarrow> format_pod" where
  "spa_format_audio_raw_build object_id info = (object_id, info)"

text \<open>
  \<open>struct spa_result_node_params\<close>: the parameter id, the index of the parameter, the
  index to continue from, and the pointer to the parameter. \<open>impl_node_enum_params\<close>
  declares it without an initialiser, so every field starts indeterminate.
\<close>

record spa_result_node_params =
  result_id :: "32 word c_field"
  result_index :: "32 word c_field"
  result_next :: "32 word c_field"
  result_param :: "format_pod c_field"

definition uninitialised_result :: spa_result_node_params where
  "uninitialised_result =
     \<lparr>result_id = Indeterminate, result_index = Indeterminate, result_next = Indeterminate,
      result_param = Indeterminate\<rparr>"

text \<open>
  What the node sends to its listeners through \<open>spa_node_call\<close>: a \<open>param_changed\<close>
  event with the parameter id and the parameter, or a \<open>result\<close> event with sequence
  number, result code, result type and the \<open>struct spa_result_node_params\<close> as it is at
  the call.
\<close>

datatype 'pod node_event =
    Param_changed "32 word" "'pod option"
  | Result int int "32 word" spa_result_node_params

subsection \<open>\<open>impl_node_set_io\<close>\<close>

text \<open>
  The sizes \<open>sizeof(struct spa_io_buffers)\<close> and \<open>sizeof(struct spa_io_rate_match)\<close>
  come from declarations outside the repository and are parameters.
\<close>

definition impl_node_set_io ::
  "nat \<Rightarrow> nat \<Rightarrow> null_state option \<Rightarrow> 32 word \<Rightarrow> addr option \<Rightarrow> nat \<Rightarrow> int \<times> null_state option"
where
  "impl_node_set_io sizeof_io_buffers sizeof_io_rate_match object id' data size' =
     (case object of
        None \<Rightarrow> (- EINVAL, None)
      | Some state \<Rightarrow>
          if id' = SPA_IO_Buffers then
            (if size' \<ge> sizeof_io_buffers
             then (0, Some (state\<lparr>io := data\<rparr>))
             else (0, Some (state\<lparr>io := None\<rparr>)))
          else if id' = SPA_IO_RateMatch then
            (if size' \<ge> sizeof_io_rate_match
             then (0, Some (state\<lparr>rate_match := data\<rparr>))
             else (0, Some (state\<lparr>rate_match := None\<rparr>)))
          else (- ENOENT, Some state))"

subsection \<open>\<open>impl_node_send_command\<close>\<close>

text \<open>The command is a pointer (NULL is \<open>None\<close>) to a command with the given id.\<close>

definition impl_node_send_command ::
  "null_state option \<Rightarrow> 32 word option \<Rightarrow> int \<times> null_state option"
where
  "impl_node_send_command object command =
     (case object of
        None \<Rightarrow> (- EINVAL, None)
      | Some state \<Rightarrow>
          (case command of
             None \<Rightarrow> (- EINVAL, Some state)
           | Some command_id \<Rightarrow>
               if command_id = SPA_NODE_COMMAND_Start then
                 (if \<not> have_format state then (- EIO, Some state)
                  else (0, Some (state\<lparr>started := True\<rparr>)))
               else if command_id = SPA_NODE_COMMAND_Suspend
                       \<or> command_id = SPA_NODE_COMMAND_Pause then
                 (0, Some (state\<lparr>started := False\<rparr>))
               else (- ENOTSUP, Some state)))"

subsection \<open>\<open>impl_node_set_param\<close>\<close>

text \<open>
  The parameter is a pointer to a structured object (a pod) of the SPA library, whose
  parsers \<open>spa_format_parse\<close> and \<open>spa_format_audio_raw_parse\<close> are outside the
  repository: they are parameters. \<open>spa_format_parse pod\<close> gives the return code and the
  media type and subtype it wrote; \<open>spa_format_audio_raw_parse pod\<close> gives the return
  code and the \<open>struct spa_audio_info_raw\<close> it leaves when started on a zeroed one. A
  negative return code is a failure.
\<close>

definition impl_node_set_param ::
  "('pod \<Rightarrow> int \<times> 32 word \<times> 32 word) \<Rightarrow> ('pod \<Rightarrow> int \<times> spa_audio_info_raw) \<Rightarrow>
   null_state option \<Rightarrow> 32 word \<Rightarrow> 32 word \<Rightarrow> 'pod option \<Rightarrow>
   int \<times> null_state option \<times> 'pod node_event list"
where
  "impl_node_set_param spa_format_parse spa_format_audio_raw_parse object id' param_flags param =
     (case object of
        None \<Rightarrow> (- EINVAL, None, [])
      | Some state \<Rightarrow>
          if id' = SPA_PARAM_Format then
            (case param of
               None \<Rightarrow>
                 (0, Some (state\<lparr>have_format := False, current_format := zero_audio_info\<rparr>),
                  [Param_changed id' None])
             | Some pod \<Rightarrow>
                 (case spa_format_parse pod of (res, mtype, msubtype) \<Rightarrow>
                    if res < 0 then (res, Some state, [])
                    else if mtype \<noteq> SPA_MEDIA_TYPE_audio \<or> msubtype \<noteq> SPA_MEDIA_SUBTYPE_raw
                    then (- EINVAL, Some state, [])
                    else
                      (case spa_format_audio_raw_parse pod of (res, raw) \<Rightarrow>
                         if res < 0 then (res, Some state, [])
                         else if channels raw = 0 \<or> channels raw > 64
                         then (- EINVAL, Some state, [])
                         else if rate raw = 0 \<or> rate raw > 192000
                         then (- EINVAL, Some state, [])
                         else
                           (res,
                            Some (state\<lparr>current_format :=
                                           \<lparr>media_type = mtype, media_subtype = msubtype,
                                            info_raw = raw\<rparr>,
                                         have_format := True\<rparr>),
                            [Param_changed id' (Some pod)]))))
          else (- ENOTSUP, Some state, []))"

subsection \<open>\<open>impl_node_enum_params\<close>\<close>

text \<open>
  The descriptor the enumeration builds (planar 32-bit float, stereo, 48 kHz). The source
  builds it into the local \<open>param\<close>, then sends \<open>result\<close>, into which it has written
  \<open>id\<close> and \<open>next\<close>; no statement copies \<open>param\<close>, or an index, into \<open>result\<close>.
\<close>

definition enum_format_info :: spa_audio_info_raw where
  "enum_format_info =
     \<lparr>format = SPA_AUDIO_FORMAT_F32P, flags = 0, rate = 48000, channels = 2,
      position = replicate 64 0\<rparr>"

definition impl_node_enum_params ::
  "null_state option \<Rightarrow> int \<Rightarrow> 32 word \<Rightarrow> 32 word \<Rightarrow> 32 word \<Rightarrow> 'pod option \<Rightarrow>
   int \<times> null_state option \<times> 'pod node_event list"
where
  "impl_node_enum_params object seq id' start num filter_pod =
     (case object of
        None \<Rightarrow> (- EINVAL, None, [])
      | Some state \<Rightarrow>
          if num = 0 then (- EINVAL, Some state, [])
          else
            (let result = uninitialised_result\<lparr>result_id := Written id',
                                                 result_next := Written start\<rparr>;
                 count = (0 :: 32 word)
             in if id' = SPA_PARAM_Format then
                  (if start = 0 \<and> count < num
                   then
                     (let param = spa_format_audio_raw_build SPA_PARAM_Format enum_format_info
                      in (uint (count + 1), Some state,
                          [Result seq 0 SPA_RESULT_TYPE_NODE_PARAMS result]))
                   else (uint count, Some state, []))
                else (uint count, Some state, [])))"

subsection \<open>\<open>impl_node_process\<close>\<close>

text \<open>
  The function reads and writes the buffer-queue area the node's \<open>io\<close> pointer names, so
  it takes the memory of areas and returns it. Where the C program would read outside an
  object (a dangling \<open>io\<close> pointer, an index beyond the \<open>buffers\<close> array, a buffer with
  no \<open>datas\<close>) or divide by zero, its behaviour is undefined and the model returns
  \<open>None\<close>.

  \<open>size / (channels * sizeof(float))\<close>: \<open>sizeof\<close> has type \<open>size_t\<close>, 64 bits wide on
  the LP64 targets of the plugin, so both operands are converted to 64 bits, and the
  quotient is converted back to the 32 bits of \<open>frames\<close>; \<open>sizeof(float)\<close> is 4.
\<close>

definition sizeof_float :: "64 word" where "sizeof_float = 4"

definition impl_node_process ::
  "null_state option \<Rightarrow> io_memory \<Rightarrow> (int \<times> null_state option \<times> io_memory) option"
where
  "impl_node_process object mem =
     (case object of
        None \<Rightarrow> Some (- EINVAL, None, mem)
      | Some state \<Rightarrow>
          if \<not> started state \<or> \<not> have_format state then Some (SPA_STATUS_OK, Some state, mem)
          else
            (case io state of
               None \<Rightarrow> Some (SPA_STATUS_OK, Some state, mem)
             | Some p \<Rightarrow>
                 (case mem p of
                    None \<Rightarrow> None
                  | Some area \<Rightarrow>
                      if buffer_id area = SPA_ID_INVALID
                      then Some (SPA_STATUS_OK, Some state, mem)
                      else if buffer_id area \<ge> MAX_BUFFERS
                      then Some (SPA_STATUS_OK, Some state,
                                 mem(p \<mapsto> area\<lparr>buffer_id := SPA_ID_INVALID\<rparr>))
                      else if unat (buffer_id area) \<ge> length (buffers area) then None
                      else
                        (case buffers area ! unat (buffer_id area) of
                           None \<Rightarrow>
                             Some (SPA_STATUS_OK, Some state,
                                   mem(p \<mapsto> area\<lparr>buffer_id := SPA_ID_INVALID\<rparr>))
                         | Some buf \<Rightarrow>
                             (case datas buf of
                                [] \<Rightarrow> None
                              | d # _ \<Rightarrow>
                                  (case chunk d of
                                     None \<Rightarrow>
                                       Some (SPA_STATUS_OK, Some state,
                                             mem(p \<mapsto> area\<lparr>buffer_id := SPA_ID_INVALID\<rparr>))
                                   | Some c \<Rightarrow>
                                       if channels (info_raw (current_format state)) = 0
                                       then None
                                       else
                                         (let size' = chunk_size c;
                                              frames = (ucast
                                                ((ucast size' :: 64 word) div
                                                 (ucast (channels (info_raw (current_format state)))
                                                  * sizeof_float)) :: 32 word)
                                          in Some (SPA_STATUS_OK,
                                                   Some (state\<lparr>frame_count :=
                                                                  frame_count state + ucast frames,
                                                                buffer_count :=
                                                                  buffer_count state + 1\<rparr>),
                                                   mem(p \<mapsto> area\<lparr>buffer_id := SPA_ID_INVALID\<rparr>)))))))))"

subsection \<open>\<open>null_state_cleanup\<close>\<close>

text \<open>Tear-down: the hook list is emptied (not part of the node record) and both flags reset.\<close>

definition null_state_cleanup :: "null_state option \<Rightarrow> null_state option" where
  "null_state_cleanup object =
     (case object of
        None \<Rightarrow> None
      | Some state \<Rightarrow> Some (state\<lparr>started := False, have_format := False\<rparr>))"

subsection \<open>Sample widths\<close>

text \<open>
  Modelled from the spec: the source has no function from an encoding to its sample width
  (\<open>impl_node_process\<close> uses \<open>sizeof(float)\<close>); the spec speaks of the sample width,
  in bytes, that the accepted format's encoding determines. Each encoding below has the
  width its name gives.
\<close>

fun sample_width :: "spa_audio_format \<Rightarrow> nat" where
  "sample_width SPA_AUDIO_FORMAT_UNKNOWN = 0"
| "sample_width SPA_AUDIO_FORMAT_U8 = 1"
| "sample_width SPA_AUDIO_FORMAT_S16 = 2"
| "sample_width SPA_AUDIO_FORMAT_S24 = 3"
| "sample_width SPA_AUDIO_FORMAT_S32 = 4"
| "sample_width SPA_AUDIO_FORMAT_F32 = 4"
| "sample_width SPA_AUDIO_FORMAT_F64 = 8"
| "sample_width SPA_AUDIO_FORMAT_F32P = 4"

subsection \<open>Example nodes\<close>

text \<open>
  The scenario of the spec: a stereo 48 kHz format, a started node whose buffer-queue
  pointer is address 0, and an area holding one buffer with a chunk of 4096 bytes.
\<close>

definition stereo_48k :: "spa_audio_format \<Rightarrow> spa_audio_info" where
  "stereo_48k enc =
     \<lparr>media_type = SPA_MEDIA_TYPE_audio, media_subtype = SPA_MEDIA_SUBTYPE_raw,
      info_raw = \<lparr>format = enc, flags = 0, rate = 48000, channels = 2,
                  position = replicate 64 0\<rparr>\<rparr>"

definition running_node :: "spa_audio_format \<Rightarrow> null_state" where
  "running_node enc =
     \<lparr>have_format = True, current_format = stereo_48k enc, io = Some 0, rate_match = None,
      frame_count = 0, buffer_count = 0, started = True\<rparr>"

definition fresh_node :: null_state where
  "fresh_node =
     \<lparr>have_format = False, current_format = zero_audio_info, io = None, rate_match = None,
      frame_count = 0, buffer_count = 0, started = False\<rparr>"

definition one_buffer_area :: "32 word \<Rightarrow> spa_io_buffers" where
  "one_buffer_area k =
     \<lparr>status = 0, buffer_id = k,
      buffers = [Some \<lparr>datas = [\<lparr>chunk = Some \<lparr>chunk_offset = 0, chunk_size = 4096\<rparr>\<rparr>]\<rparr>]\<rparr>"

text \<open>
  Example parsers, for concrete instances: a pod that is the structured descriptor itself, which
  both parsers read without failure.
\<close>

definition descriptor_format_parse :: "spa_audio_info \<Rightarrow> int \<times> 32 word \<times> 32 word" where
  "descriptor_format_parse pod = (0, media_type pod, media_subtype pod)"

definition descriptor_audio_raw_parse :: "spa_audio_info \<Rightarrow> int \<times> spa_audio_info_raw" where
  "descriptor_audio_raw_parse pod = (0, info_raw pod)"

subsection \<open>The spec's validation rule and the counters\<close>

text \<open>
  The rule as the spec words it, to compare with \<open>impl_node_set_param\<close>: the media kind
  is raw audio, the channel count is in [1,64] and the sample rate in [1,192000].
\<close>

definition spec_validate :: "spa_audio_info \<Rightarrow> bool" where
  "spec_validate d =
     (media_type d = SPA_MEDIA_TYPE_audio \<and> media_subtype d = SPA_MEDIA_SUBTYPE_raw \<and>
      1 \<le> channels (info_raw d) \<and> channels (info_raw d) \<le> 64 \<and>
      1 \<le> rate (info_raw d) \<and> rate (info_raw d) \<le> 192000)"

text \<open>The processing statistics of a node.\<close>

definition counters :: "null_state \<Rightarrow> 64 word \<times> 64 word" where
  "counters state = (frame_count state, buffer_count state)"

section \<open>Arithmetic of the frame count\<close>

lemma unat_ucast_32_64: "unat (ucast (w :: 32 word) :: 64 word) = unat w"
proof -
  have "unat w < 2 ^ 32" using unsigned_less [of w] by simp
  then have "unat w < 2 ^ 64" by simp
  then show ?thesis by (simp add: unsigned_ucast_eq take_bit_nat_eq_self)
qed

lemma frames_conv:
  fixes s c :: "32 word"
  shows "(ucast (ucast ((ucast s :: 64 word) div (ucast c * sizeof_float)) :: 32 word) :: 64 word)
         = of_nat (unat s div (unat c * 4))"
proof -
  have cb: "unat c < 2 ^ 32" using unsigned_less [of c] by simp
  have sb: "unat s < 2 ^ 32" using unsigned_less [of s] by simp
  have "unat (ucast c :: 64 word) * unat (4 :: 64 word) < 2 ^ LENGTH(64)"
    using cb by (simp add: unat_ucast_32_64)
  then have c4: "unat (ucast c * (4::64 word)) = unat c * 4"
    by (simp add: unat_mult_lem [THEN iffD1] unat_ucast_32_64)
  have q: "unat ((ucast s :: 64 word) div (ucast c * 4)) = unat s div (unat c * 4)"
    by (simp add: unat_div c4 unat_ucast_32_64)
  have "unat s div (unat c * 4) \<le> unat s" by (rule div_le_dividend)
  with sb have lt: "unat s div (unat c * 4) < 2 ^ 32" by linarith
  define w where "w = (ucast s :: 64 word) div (ucast c * 4)"
  have "unat (ucast w :: 32 word) = take_bit 32 (unat w)"
    by (simp add: unsigned_ucast_eq)
  also have "\<dots> = unat w"
    using lt q by (simp add: take_bit_nat_eq_self w_def)
  finally have "unat (ucast (ucast w :: 32 word) :: 64 word) = unat s div (unat c * 4)"
    using q by (simp add: unat_ucast_32_64 w_def)
  moreover have "unat (of_nat (unat s div (unat c * 4)) :: 64 word) = unat s div (unat c * 4)"
    using lt by (simp add: unat_of_nat)
  ultimately show ?thesis by (simp add: word_unat_eq_iff w_def sizeof_float_def)
qed

lemma ge_one_iff_nonzero: "(1 \<le> w) = (w \<noteq> 0)" for w :: "32 word"
  by (simp add: word_le_nat_alt unat_eq_0 Suc_le_eq unat_gt_0)

lemma valid_id_not_invalid: "b < MAX_BUFFERS \<Longrightarrow> b \<noteq> SPA_ID_INVALID"
  by (auto simp: MAX_BUFFERS_def SPA_ID_INVALID_def)

section \<open>Binding I/O areas\<close>

text \<open>
  C7. For every I/O kind other than \<open>SPA_IO_Buffers\<close> (the buffer queue) and
  \<open>SPA_IO_RateMatch\<close>, \<open>impl_node_set_io\<close> fails with \<open>-ENOENT\<close>, the code's error for
  an unsupported I/O kind, and leaves the node, and so both stored pointers, as they were.
\<close>

theorem set_io_unknown_kind:
  assumes "id' \<noteq> SPA_IO_Buffers" and "id' \<noteq> SPA_IO_RateMatch"
  shows "impl_node_set_io szb szr (Some state) id' data size' = (- ENOENT, Some state)"
  using assms by (simp add: impl_node_set_io_def)

theorem set_io_unknown_kind_witness:
  "(3 :: 32 word) \<noteq> SPA_IO_Buffers \<and> (3 :: 32 word) \<noteq> SPA_IO_RateMatch \<and>
   impl_node_set_io 8 48
     (Some \<lparr>have_format = False, current_format = zero_audio_info, io = Some 7,
            rate_match = Some 9, frame_count = 0, buffer_count = 0, started = False\<rparr>)
     3 (Some 11) 64
   = (- ENOENT,
      Some \<lparr>have_format = False, current_format = zero_audio_info, io = Some 7,
            rate_match = Some 9, frame_count = 0, buffer_count = 0, started = False\<rparr>)"
proof -
  have a: "(3 :: 32 word) \<noteq> SPA_IO_Buffers" by (simp add: SPA_IO_Buffers_def)
  have b: "(3 :: 32 word) \<noteq> SPA_IO_RateMatch" by (simp add: SPA_IO_RateMatch_def)
  show ?thesis using a b set_io_unknown_kind [OF a b] by simp
qed

section \<open>Processing a buffer\<close>

text \<open>
  C1, as the code has it. For a started node with an accepted format of \<open>C\<close> channels
  (\<open>C\<close> not 0), whose buffer-queue pointer names an area whose current buffer identifier
  is a valid index (below \<open>MAX_BUFFERS\<close> and inside the array) of a non-null buffer whose
  first data block carries a chunk of \<open>S\<close> bytes: one call of \<open>impl_node_process\<close>
  returns \<open>SPA_STATUS_OK\<close>, adds \<open>S div (C * 4)\<close> to \<open>frame_count\<close> and 1 to
  \<open>buffer_count\<close> (both counters are 64 bits wide and wrap), and sets the identifier to
  \<open>SPA_ID_INVALID\<close>. The sample width is the constant \<open>sizeof(float)\<close>, 4 bytes,
  whatever the encoding of the accepted format.
\<close>

theorem process_consumes_buffer:
  assumes "started state" and "have_format state"
    and "io state = Some p" and "mem p = Some area"
    and "buffer_id area < MAX_BUFFERS"
    and "unat (buffer_id area) < length (buffers area)"
    and "buffers area ! unat (buffer_id area) = Some buf"
    and "datas buf = d # ds" and "chunk d = Some c"
    and "channels (info_raw (current_format state)) \<noteq> 0"
  shows "impl_node_process (Some state) mem =
           Some (SPA_STATUS_OK,
                 Some (state\<lparr>frame_count := frame_count state +
                          of_nat (unat (chunk_size c) div
                                  (unat (channels (info_raw (current_format state))) * 4)),
                        buffer_count := buffer_count state + 1\<rparr>),
                 mem(p \<mapsto> area\<lparr>buffer_id := SPA_ID_INVALID\<rparr>))"
proof -
  have "buffer_id area \<noteq> SPA_ID_INVALID"
    using assms(5) by (rule valid_id_not_invalid)
  moreover have "\<not> MAX_BUFFERS \<le> buffer_id area"
    using assms(5) by simp
  ultimately show ?thesis
    using assms by (simp add: impl_node_process_def frames_conv)
qed

theorem process_consumes_buffer_witness:
  "impl_node_process (Some (running_node SPA_AUDIO_FORMAT_F32)) [0 \<mapsto> one_buffer_area 0] =
     Some (SPA_STATUS_OK,
           Some ((running_node SPA_AUDIO_FORMAT_F32)\<lparr>frame_count := 512, buffer_count := 1\<rparr>),
           [0 \<mapsto> (one_buffer_area 0)\<lparr>buffer_id := SPA_ID_INVALID\<rparr>])"
  using process_consumes_buffer
    [of "running_node SPA_AUDIO_FORMAT_F32" 0 "[0 \<mapsto> one_buffer_area 0]" "one_buffer_area 0"
        "\<lparr>datas = [\<lparr>chunk = Some \<lparr>chunk_offset = 0, chunk_size = 4096\<rparr>\<rparr>]\<rparr>"
        "\<lparr>chunk = Some \<lparr>chunk_offset = 0, chunk_size = 4096\<rparr>\<rparr>" "[]"
        "\<lparr>chunk_offset = 0, chunk_size = 4096\<rparr>"]
  by (simp add: running_node_def one_buffer_area_def stereo_48k_def MAX_BUFFERS_def)

text \<open>
  C1, as the claim states it, fails: with the 16-bit encoding \<open>SPA_AUDIO_FORMAT_S16\<close>
  (sample width 2), 2 channels and a chunk of 4096 bytes, the call adds 512 frames, not
  \<open>4096 div (2 * 2) = 1024\<close>.
\<close>

theorem process_sample_width_counterexample:
  "impl_node_process (Some (running_node SPA_AUDIO_FORMAT_S16)) [0 \<mapsto> one_buffer_area 0] =
     Some (SPA_STATUS_OK,
           Some ((running_node SPA_AUDIO_FORMAT_S16)\<lparr>frame_count := 512, buffer_count := 1\<rparr>),
           [0 \<mapsto> (one_buffer_area 0)\<lparr>buffer_id := SPA_ID_INVALID\<rparr>])
   \<and> frame_count (running_node SPA_AUDIO_FORMAT_S16) = 0
   \<and> (512 :: 64 word) \<noteq>
       of_nat (4096 div
         (unat (channels (info_raw (current_format (running_node SPA_AUDIO_FORMAT_S16)))) *
          sample_width (format (info_raw (current_format (running_node SPA_AUDIO_FORMAT_S16))))))"
  by (simp add: impl_node_process_def running_node_def one_buffer_area_def stereo_48k_def
      MAX_BUFFERS_def SPA_ID_INVALID_def sizeof_float_def)

section \<open>Quanta that do nothing\<close>

text \<open>
  C4. When the node is not started, or has no accepted format, or has no buffer-queue
  binding, or the bound area's current buffer identifier is \<open>SPA_ID_INVALID\<close>,
  \<open>impl_node_process\<close> returns \<open>SPA_STATUS_OK\<close> and leaves the node (so both
  counters) and the memory of areas as they were.
\<close>

theorem process_noop:
  assumes "\<not> started state \<or> \<not> have_format state \<or> io state = None \<or>
           (\<exists>p area. io state = Some p \<and> mem p = Some area \<and>
                      buffer_id area = SPA_ID_INVALID)"
  shows "impl_node_process (Some state) mem = Some (SPA_STATUS_OK, Some state, mem)"
  using assms by (auto simp: impl_node_process_def)

theorem process_noop_witness:
  "impl_node_process (Some ((running_node SPA_AUDIO_FORMAT_F32)\<lparr>started := False\<rparr>))
     [0 \<mapsto> one_buffer_area 0]
     = Some (SPA_STATUS_OK, Some ((running_node SPA_AUDIO_FORMAT_F32)\<lparr>started := False\<rparr>),
             [0 \<mapsto> one_buffer_area 0])
   \<and> impl_node_process (Some ((running_node SPA_AUDIO_FORMAT_F32)\<lparr>have_format := False\<rparr>))
     [0 \<mapsto> one_buffer_area 0]
     = Some (SPA_STATUS_OK, Some ((running_node SPA_AUDIO_FORMAT_F32)\<lparr>have_format := False\<rparr>),
             [0 \<mapsto> one_buffer_area 0])
   \<and> impl_node_process (Some ((running_node SPA_AUDIO_FORMAT_F32)\<lparr>io := None\<rparr>))
     [0 \<mapsto> one_buffer_area 0]
     = Some (SPA_STATUS_OK, Some ((running_node SPA_AUDIO_FORMAT_F32)\<lparr>io := None\<rparr>),
             [0 \<mapsto> one_buffer_area 0])
   \<and> impl_node_process (Some (running_node SPA_AUDIO_FORMAT_F32))
     [0 \<mapsto> one_buffer_area SPA_ID_INVALID]
     = Some (SPA_STATUS_OK, Some (running_node SPA_AUDIO_FORMAT_F32),
             [0 \<mapsto> one_buffer_area SPA_ID_INVALID])"
proof -
  have a: "\<not> started ((running_node SPA_AUDIO_FORMAT_F32)\<lparr>started := False\<rparr>)" by simp
  have b: "\<not> have_format ((running_node SPA_AUDIO_FORMAT_F32)\<lparr>have_format := False\<rparr>)"
    by simp
  have c: "io ((running_node SPA_AUDIO_FORMAT_F32)\<lparr>io := None\<rparr>) = None" by simp
  have d: "\<exists>p area. io (running_node SPA_AUDIO_FORMAT_F32) = Some p \<and>
             [0 \<mapsto> one_buffer_area SPA_ID_INVALID] p = Some area \<and>
             buffer_id area = SPA_ID_INVALID"
    by (simp add: running_node_def one_buffer_area_def)
  show ?thesis
    using process_noop [of "(running_node SPA_AUDIO_FORMAT_F32)\<lparr>started := False\<rparr>"
                           "[0 \<mapsto> one_buffer_area 0]"]
      process_noop [of "(running_node SPA_AUDIO_FORMAT_F32)\<lparr>have_format := False\<rparr>"
                           "[0 \<mapsto> one_buffer_area 0]"]
      process_noop [of "(running_node SPA_AUDIO_FORMAT_F32)\<lparr>io := None\<rparr>"
                           "[0 \<mapsto> one_buffer_area 0]"]
      process_noop [of "running_node SPA_AUDIO_FORMAT_F32"
                           "[0 \<mapsto> one_buffer_area SPA_ID_INVALID]"]
      a b c d
    by blast
qed

text \<open>
  C6. For a started node with an accepted format and a bound area whose current buffer
  identifier is not \<open>SPA_ID_INVALID\<close> and is at least \<open>MAX_BUFFERS\<close>,
  \<open>impl_node_process\<close> writes \<open>SPA_ID_INVALID\<close> into the area's identifier, returns
  \<open>SPA_STATUS_OK\<close> (not an error code) and leaves the node, so both counters, unchanged.
\<close>

theorem process_out_of_range_id:
  assumes "started state" and "have_format state"
    and "io state = Some p" and "mem p = Some area"
    and "buffer_id area \<noteq> SPA_ID_INVALID" and "MAX_BUFFERS \<le> buffer_id area"
  shows "impl_node_process (Some state) mem =
           Some (SPA_STATUS_OK, Some state, mem(p \<mapsto> area\<lparr>buffer_id := SPA_ID_INVALID\<rparr>))"
  using assms by (simp add: impl_node_process_def)

theorem process_out_of_range_id_witness:
  "impl_node_process (Some (running_node SPA_AUDIO_FORMAT_F32)) [0 \<mapsto> one_buffer_area 16] =
     Some (SPA_STATUS_OK, Some (running_node SPA_AUDIO_FORMAT_F32),
           [0 \<mapsto> (one_buffer_area 16)\<lparr>buffer_id := SPA_ID_INVALID\<rparr>])"
  using process_out_of_range_id
    [of "running_node SPA_AUDIO_FORMAT_F32" 0 "[0 \<mapsto> one_buffer_area 16]" "one_buffer_area 16"]
  by (simp add: running_node_def one_buffer_area_def MAX_BUFFERS_def SPA_ID_INVALID_def)

section \<open>Setting and clearing the format\<close>

text \<open>
  C2. The claim is that clearing the format also forces \<open>started\<close> to false. The code
  does the first half only: for every node, setting the Format parameter to NULL returns 0,
  zeroes the stored format and sets \<open>have_format\<close> to false, and \<open>started\<close> keeps the
  value it had. So a started node stays started without a format, although the branch's
  comment says the clear returns the node to the unconfigured state, the Start command
  refuses a node without a format, and \<open>null_state_cleanup\<close> resets both flags together.
\<close>

theorem clear_format:
  "impl_node_set_param fp rp (Some state) SPA_PARAM_Format fl None =
     (0, Some (state\<lparr>have_format := False, current_format := zero_audio_info\<rparr>),
      [Param_changed SPA_PARAM_Format None])
   \<and> \<not> have_format (state\<lparr>have_format := False, current_format := zero_audio_info\<rparr>)
   \<and> started (state\<lparr>have_format := False, current_format := zero_audio_info\<rparr>) = started state"
  by (simp add: impl_node_set_param_def)

text \<open>At a started node: the clear succeeds and the node it leaves is still started.\<close>

theorem clear_format_witness:
  "impl_node_set_param descriptor_format_parse descriptor_audio_raw_parse
     (Some (running_node SPA_AUDIO_FORMAT_F32)) SPA_PARAM_Format 0 None =
     (0, Some ((running_node SPA_AUDIO_FORMAT_F32)
                 \<lparr>have_format := False, current_format := zero_audio_info\<rparr>),
      [Param_changed SPA_PARAM_Format None])
   \<and> started ((running_node SPA_AUDIO_FORMAT_F32)
                 \<lparr>have_format := False, current_format := zero_audio_info\<rparr>)"
  using clear_format [of descriptor_format_parse descriptor_audio_raw_parse
                         "running_node SPA_AUDIO_FORMAT_F32" 0]
  by (simp add: running_node_def)

text \<open>
  What follows from the flag that is left set. On the node the clear leaves, which is
  started, the Start command fails with \<open>-EIO\<close>; and once a format is set again, with
  no Start in between, \<open>impl_node_process\<close> consumes a buffer.
\<close>

lemma clear_format_then_reconfigure:
  "impl_node_send_command
     (Some ((running_node SPA_AUDIO_FORMAT_F32)
              \<lparr>have_format := False, current_format := zero_audio_info\<rparr>))
     (Some SPA_NODE_COMMAND_Start)
     = (- EIO, Some ((running_node SPA_AUDIO_FORMAT_F32)
                       \<lparr>have_format := False, current_format := zero_audio_info\<rparr>))
   \<and> impl_node_set_param descriptor_format_parse descriptor_audio_raw_parse
       (Some ((running_node SPA_AUDIO_FORMAT_F32)
                \<lparr>have_format := False, current_format := zero_audio_info\<rparr>))
       SPA_PARAM_Format 0 (Some (stereo_48k SPA_AUDIO_FORMAT_F32))
     = (0, Some (running_node SPA_AUDIO_FORMAT_F32),
        [Param_changed SPA_PARAM_Format (Some (stereo_48k SPA_AUDIO_FORMAT_F32))])
   \<and> impl_node_process (Some (running_node SPA_AUDIO_FORMAT_F32)) [0 \<mapsto> one_buffer_area 0]
     = Some (SPA_STATUS_OK,
             Some ((running_node SPA_AUDIO_FORMAT_F32)\<lparr>frame_count := 512, buffer_count := 1\<rparr>),
             [0 \<mapsto> (one_buffer_area 0)\<lparr>buffer_id := SPA_ID_INVALID\<rparr>])"
  by (simp add: impl_node_send_command_def impl_node_set_param_def impl_node_process_def
      descriptor_format_parse_def descriptor_audio_raw_parse_def running_node_def
      stereo_48k_def one_buffer_area_def MAX_BUFFERS_def SPA_ID_INVALID_def sizeof_float_def)

text \<open>
  C3. Setting the Format parameter to a descriptor succeeds (a return value that is not
  negative) exactly when both parsers read the descriptor and its media kind is raw audio,
  its channel count is in [1,64] and its sample rate is in [1,192000], that is
  \<open>spec_validate\<close>; on success the parsed format is stored and \<open>have_format\<close> is set.
  On failure the node is unchanged (stored format, \<open>have_format\<close>, \<open>started\<close> and all
  else) and no event is sent, and for a descriptor that the parsers read (the media kind,
  and the raw audio fields when the media kind is raw audio) the failure is \<open>-EINVAL\<close>.
\<close>

theorem set_format_validates:
  assumes "impl_node_set_param fp rp (Some state) SPA_PARAM_Format fl (Some pod) =
             (res, object', events)"
  shows "((0 \<le> res) =
            (0 \<le> fst (fp pod) \<and> 0 \<le> fst (rp pod) \<and>
             spec_validate \<lparr>media_type = fst (snd (fp pod)), media_subtype = snd (snd (fp pod)),
                            info_raw = snd (rp pod)\<rparr>))
         \<and> (0 \<le> res \<longrightarrow>
               object' = Some (state\<lparr>current_format :=
                                       \<lparr>media_type = fst (snd (fp pod)),
                                        media_subtype = snd (snd (fp pod)),
                                        info_raw = snd (rp pod)\<rparr>,
                                     have_format := True\<rparr>))
         \<and> (res < 0 \<longrightarrow> object' = Some state \<and> events = [])
         \<and> (res < 0 \<and> 0 \<le> fst (fp pod) \<and>
              (fst (snd (fp pod)) \<noteq> SPA_MEDIA_TYPE_audio \<or>
               snd (snd (fp pod)) \<noteq> SPA_MEDIA_SUBTYPE_raw \<or> 0 \<le> fst (rp pod))
              \<longrightarrow> res = - EINVAL)"
  using assms
  by (cases "fp pod"; cases "rp pod")
     (auto simp: impl_node_set_param_def spec_validate_def ge_one_iff_nonzero EINVAL_def not_less
           split: if_splits)

theorem set_format_validates_witness:
  "spec_validate (stereo_48k SPA_AUDIO_FORMAT_F32)
   \<and> impl_node_set_param descriptor_format_parse descriptor_audio_raw_parse
        (Some fresh_node) SPA_PARAM_Format 0 (Some (stereo_48k SPA_AUDIO_FORMAT_F32))
      = (0, Some (fresh_node\<lparr>current_format := stereo_48k SPA_AUDIO_FORMAT_F32,
                              have_format := True\<rparr>),
         [Param_changed SPA_PARAM_Format (Some (stereo_48k SPA_AUDIO_FORMAT_F32))])
   \<and> \<not> spec_validate ((stereo_48k SPA_AUDIO_FORMAT_F32)\<lparr>media_subtype := 2\<rparr>)
   \<and> impl_node_set_param descriptor_format_parse descriptor_audio_raw_parse
        (Some (running_node SPA_AUDIO_FORMAT_S16)) SPA_PARAM_Format 0
        (Some ((stereo_48k SPA_AUDIO_FORMAT_F32)\<lparr>media_subtype := 2\<rparr>))
      = (- EINVAL, Some (running_node SPA_AUDIO_FORMAT_S16), [])"
proof -
  have ok: "impl_node_set_param descriptor_format_parse descriptor_audio_raw_parse
        (Some fresh_node) SPA_PARAM_Format 0 (Some (stereo_48k SPA_AUDIO_FORMAT_F32))
      = (0, Some (fresh_node\<lparr>current_format := stereo_48k SPA_AUDIO_FORMAT_F32,
                              have_format := True\<rparr>),
         [Param_changed SPA_PARAM_Format (Some (stereo_48k SPA_AUDIO_FORMAT_F32))])"
    by (simp add: impl_node_set_param_def descriptor_format_parse_def
        descriptor_audio_raw_parse_def stereo_48k_def)
  have bad: "impl_node_set_param descriptor_format_parse descriptor_audio_raw_parse
        (Some (running_node SPA_AUDIO_FORMAT_S16)) SPA_PARAM_Format 0
        (Some ((stereo_48k SPA_AUDIO_FORMAT_F32)\<lparr>media_subtype := 2\<rparr>))
      = (- EINVAL, Some (running_node SPA_AUDIO_FORMAT_S16), [])"
    by (simp add: impl_node_set_param_def descriptor_format_parse_def
        descriptor_audio_raw_parse_def stereo_48k_def SPA_MEDIA_SUBTYPE_raw_def)
  have "spec_validate (stereo_48k SPA_AUDIO_FORMAT_F32)"
    using set_format_validates [OF ok]
    by (simp add: descriptor_format_parse_def descriptor_audio_raw_parse_def stereo_48k_def)
  moreover have "\<not> spec_validate ((stereo_48k SPA_AUDIO_FORMAT_F32)\<lparr>media_subtype := 2\<rparr>)"
    using set_format_validates [OF bad]
    by (simp add: descriptor_format_parse_def descriptor_audio_raw_parse_def EINVAL_def
        stereo_48k_def)
  ultimately show ?thesis using ok bad by simp
qed

text \<open>The descriptor that the enumeration advertises passes the validation.\<close>

lemma advertised_format_valid:
  "spec_validate \<lparr>media_type = SPA_MEDIA_TYPE_audio, media_subtype = SPA_MEDIA_SUBTYPE_raw,
                  info_raw = enum_format_info\<rparr>"
  by (simp add: spec_validate_def enum_format_info_def)

section \<open>Commands\<close>

text \<open>
  C5. The Start command fails with \<open>-EIO\<close>, the code's error for a node without a
  format, exactly when \<open>have_format\<close> is false, and then the node, so \<open>started\<close>, is
  unchanged; when \<open>have_format\<close> is true it returns 0 and sets \<open>started\<close>. In
  particular Start succeeds on the node that a successful setting of the format leaves.
\<close>

theorem start_command:
  "(fst (impl_node_send_command (Some state) (Some SPA_NODE_COMMAND_Start)) = - EIO)
     = (\<not> have_format state)
   \<and> (\<not> have_format state \<longrightarrow>
        impl_node_send_command (Some state) (Some SPA_NODE_COMMAND_Start) = (- EIO, Some state))
   \<and> (have_format state \<longrightarrow>
        impl_node_send_command (Some state) (Some SPA_NODE_COMMAND_Start)
          = (0, Some (state\<lparr>started := True\<rparr>)))
   \<and> (impl_node_set_param fp rp (Some state) SPA_PARAM_Format fl (Some pod)
          = (res, Some state', events) \<and> 0 \<le> res \<longrightarrow>
        impl_node_send_command (Some state') (Some SPA_NODE_COMMAND_Start)
          = (0, Some (state'\<lparr>started := True\<rparr>)))"
proof -
  have "have_format state'"
    if "impl_node_set_param fp rp (Some state) SPA_PARAM_Format fl (Some pod)
          = (res, Some state', events)" and "0 \<le> res"
    using that
    by (cases "fp pod"; cases "rp pod")
       (auto simp: impl_node_set_param_def EINVAL_def split: if_splits)
  then show ?thesis
    by (auto simp: impl_node_send_command_def EIO_def)
qed

theorem start_command_witness:
  "impl_node_send_command (Some fresh_node) (Some SPA_NODE_COMMAND_Start)
     = (- EIO, Some fresh_node)
   \<and> impl_node_send_command
        (Some (fresh_node\<lparr>current_format := stereo_48k SPA_AUDIO_FORMAT_F32,
                          have_format := True\<rparr>))
        (Some SPA_NODE_COMMAND_Start)
     = (0, Some (fresh_node\<lparr>current_format := stereo_48k SPA_AUDIO_FORMAT_F32,
                            have_format := True, started := True\<rparr>))"
proof -
  have ok: "impl_node_set_param descriptor_format_parse descriptor_audio_raw_parse
        (Some fresh_node) SPA_PARAM_Format 0 (Some (stereo_48k SPA_AUDIO_FORMAT_F32))
      = (0, Some (fresh_node\<lparr>current_format := stereo_48k SPA_AUDIO_FORMAT_F32,
                              have_format := True\<rparr>),
         [Param_changed SPA_PARAM_Format (Some (stereo_48k SPA_AUDIO_FORMAT_F32))])"
    by (simp add: impl_node_set_param_def descriptor_format_parse_def
        descriptor_audio_raw_parse_def stereo_48k_def)
  have no: "\<not> have_format fresh_node" by (simp add: fresh_node_def)
  show ?thesis
    using no ok
      start_command [of fresh_node descriptor_format_parse descriptor_audio_raw_parse 0
                        "stereo_48k SPA_AUDIO_FORMAT_F32" 0
                        "fresh_node\<lparr>current_format := stereo_48k SPA_AUDIO_FORMAT_F32,
                                     have_format := True\<rparr>"
                        "[Param_changed SPA_PARAM_Format (Some (stereo_48k SPA_AUDIO_FORMAT_F32))]"]
    by simp
qed

section \<open>Enumerating parameters\<close>

text \<open>
  C8. The claim is that enumerating from index 0 yields exactly one descriptor. The code
  does this much: enumerating the Format parameter from index 0 with a count \<open>num\<close> of at
  least 1 returns 1 and sends exactly one result, in which only \<open>id\<close> and \<open>next\<close> are
  written; the descriptor it has built is not in the result, whose \<open>param\<close> and \<open>index\<close>
  are indeterminate, although the comment before the call says that the format parameter
  is sent back. From an index \<open>start\<close> of at least 1 it sends nothing (and returns 0 when
  \<open>num\<close> is at least 1), and enumerating never changes the node.
\<close>

theorem enum_format_once:
  "(num \<noteq> 0 \<longrightarrow>
      impl_node_enum_params (Some state) seq SPA_PARAM_Format 0 num filt
        = (1, Some state,
           [Result seq 0 SPA_RESULT_TYPE_NODE_PARAMS
              \<lparr>result_id = Written SPA_PARAM_Format, result_index = Indeterminate,
               result_next = Written 0, result_param = Indeterminate\<rparr>]))
   \<and> (start \<noteq> 0 \<and> num \<noteq> 0 \<longrightarrow>
        impl_node_enum_params (Some state) seq SPA_PARAM_Format start num filt
          = (0, Some state, []))
   \<and> (start \<noteq> 0 \<longrightarrow>
        snd (snd (impl_node_enum_params (Some state) seq SPA_PARAM_Format start num filt)) = [])
   \<and> fst (snd (impl_node_enum_params (Some state) seq id' start num filt)) = Some state"
proof -
  have pos: "0 < num" if "num \<noteq> 0"
    using that by (simp add: word_gt_0)
  show ?thesis
    using pos by (simp add: impl_node_enum_params_def uninitialised_result_def)
qed

text \<open>
  At index 0 and count 1: one result is sent, and its \<open>param\<close> is not the descriptor the
  enumeration built.
\<close>

theorem enum_format_once_witness:
  "impl_node_enum_params (Some (running_node SPA_AUDIO_FORMAT_F32)) 7 SPA_PARAM_Format 0 1
       (None :: spa_audio_info option)
     = (1, Some (running_node SPA_AUDIO_FORMAT_F32),
        [Result 7 0 SPA_RESULT_TYPE_NODE_PARAMS
           \<lparr>result_id = Written SPA_PARAM_Format, result_index = Indeterminate,
            result_next = Written 0, result_param = Indeterminate\<rparr>])
   \<and> result_param
        \<lparr>result_id = Written SPA_PARAM_Format, result_index = Indeterminate,
         result_next = Written 0, result_param = Indeterminate\<rparr>
       \<noteq> Written (spa_format_audio_raw_build SPA_PARAM_Format enum_format_info)
   \<and> impl_node_enum_params (Some (running_node SPA_AUDIO_FORMAT_F32)) 7 SPA_PARAM_Format 1 1
       (None :: spa_audio_info option)
     = (0, Some (running_node SPA_AUDIO_FORMAT_F32), [])"
  using enum_format_once [of 1 "running_node SPA_AUDIO_FORMAT_F32" 7 "None :: spa_audio_info option" 1]
  by simp

text \<open>
  C10. For every parameter id and every start index, enumerating with a count of 0 fails
  with \<open>-EINVAL\<close>, sends nothing and leaves the node unchanged.
\<close>

theorem enum_zero_count:
  "impl_node_enum_params (Some state) seq id' start 0 filt = (- EINVAL, Some state, [])"
  by (simp add: impl_node_enum_params_def)

theorem enum_zero_count_witness:
  "impl_node_enum_params (Some (running_node SPA_AUDIO_FORMAT_F32)) 7 SPA_PARAM_Format 0 0
       (None :: spa_audio_info option)
     = (- EINVAL, Some (running_node SPA_AUDIO_FORMAT_F32), [])"
  using enum_zero_count [of "running_node SPA_AUDIO_FORMAT_F32" 7 SPA_PARAM_Format 0
                            "None :: spa_audio_info option"]
  by simp

section \<open>The counters outside processing\<close>

text \<open>
  C9. Clearing the format leaves \<open>frame_count\<close> and \<open>buffer_count\<close> as they were; and
  so does every setting of a parameter, every command, every binding of an I/O area, every
  enumeration and the tear-down.
\<close>

theorem control_plane_keeps_counters:
  "map_option counters (fst (snd (impl_node_set_param fp rp (Some state) SPA_PARAM_Format fl None)))
     = Some (counters state)
   \<and> map_option counters (fst (snd (impl_node_set_param fp rp (Some state) id' fl param)))
     = Some (counters state)
   \<and> map_option counters (snd (impl_node_send_command (Some state) command))
     = Some (counters state)
   \<and> map_option counters (snd (impl_node_set_io szb szr (Some state) io_id data size'))
     = Some (counters state)
   \<and> map_option counters (fst (snd (impl_node_enum_params (Some state) seq id' start num filt)))
     = Some (counters state)
   \<and> map_option counters (null_state_cleanup (Some state)) = Some (counters state)"
proof -
  have sp: "map_option counters (fst (snd (impl_node_set_param fp rp (Some state) i fl p)))
              = Some (counters state)" for i p
  proof (cases p)
    case None
    then show ?thesis by (simp add: impl_node_set_param_def counters_def)
  next
    case (Some pod)
    then show ?thesis
      by (cases "fp pod"; cases "rp pod") (simp add: impl_node_set_param_def counters_def)
  qed
  have sc: "map_option counters (snd (impl_node_send_command (Some state) command))
              = Some (counters state)"
    by (cases command) (simp_all add: impl_node_send_command_def counters_def)
  have si: "map_option counters (snd (impl_node_set_io szb szr (Some state) io_id data size'))
              = Some (counters state)"
    by (simp add: impl_node_set_io_def counters_def)
  have ep: "map_option counters
              (fst (snd (impl_node_enum_params (Some state) seq id' start num filt)))
              = Some (counters state)"
    by (simp add: impl_node_enum_params_def)
  have cl: "map_option counters (null_state_cleanup (Some state)) = Some (counters state)"
    by (simp add: null_state_cleanup_def counters_def)
  show ?thesis using sp sc si ep cl by simp
qed

theorem control_plane_keeps_counters_witness:
  "map_option counters
     (fst (snd (impl_node_set_param descriptor_format_parse descriptor_audio_raw_parse
        (Some ((running_node SPA_AUDIO_FORMAT_F32)\<lparr>frame_count := 512, buffer_count := 1\<rparr>))
        SPA_PARAM_Format 0 None)))
     = Some (512, 1)"
  using control_plane_keeps_counters
    [where fp = descriptor_format_parse and rp = descriptor_audio_raw_parse
       and state = "(running_node SPA_AUDIO_FORMAT_F32)\<lparr>frame_count := 512, buffer_count := 1\<rparr>"
       and fl = 0, THEN conjunct1]
  by (simp add: counters_def)

end
